theory Spec2Isabelle
  imports Main "HOL-Library.Word" "HOL-Library.Sublist"
begin

unbundle bit_operations_syntax

section \<open>Application errors (internal/errors)\<close>

text \<open>
  The sentinel error values of package \<open>errors\<close>. An \<open>AppError\<close> carries one of them as
  its \<open>Type\<close>, a message and an optional cause. A Go \<open>error\<close> is either an \<open>AppError\<close>
  or an error of a foreign package (transport, file system, decoder), of which only the
  text is kept.
\<close>

datatype errtype =
    ErrInvalidConfig
  | ErrUnauthorized
  | ErrInvalidImage
  | ErrImageTooLarge
  | ErrImageTooBig
  | ErrUploadFailed
  | ErrDownloadFailed
  | ErrInvalidFileFormat
  | ErrUserNotFound
  | ErrUserAlreadyExists
  | ErrInvalidUserID
  | ErrMissingFileID
  | ErrCloudflareAPI

fun errtype_text :: "errtype \<Rightarrow> string" where
  "errtype_text ErrInvalidConfig = ''invalid configuration''"
| "errtype_text ErrUnauthorized = ''user not authorized''"
| "errtype_text ErrInvalidImage = ''invalid image''"
| "errtype_text ErrImageTooLarge = ''image exceeds size limit''"
| "errtype_text ErrImageTooBig = ''image dimensions exceed limit''"
| "errtype_text ErrUploadFailed = ''image upload failed''"
| "errtype_text ErrDownloadFailed = ''file download failed''"
| "errtype_text ErrInvalidFileFormat = ''invalid file format''"
| "errtype_text ErrUserNotFound = ''user not found in authorized list''"
| "errtype_text ErrUserAlreadyExists = ''user already authorized''"
| "errtype_text ErrInvalidUserID = ''invalid user ID format''"
| "errtype_text ErrMissingFileID = ''no pending upload found''"
| "errtype_text ErrCloudflareAPI = ''cloudflare API error''"

datatype go_error =
    Foreign string
  | AppError errtype string "go_error option"

text \<open>\<open>New\<close> and \<open>Wrap\<close> build an \<open>AppError\<close> without and with a cause.\<close>

definition New :: "errtype \<Rightarrow> string \<Rightarrow> go_error" where
  "New errType message = AppError errType message None"

definition Wrap :: "errtype \<Rightarrow> string \<Rightarrow> go_error \<Rightarrow> go_error" where
  "Wrap errType message cause = AppError errType message (Some cause)"

text \<open>The method \<open>Error()\<close>: the text shown to the user after a failure marker.\<close>

fun Error :: "go_error \<Rightarrow> string" where
  "Error (Foreign s) = s"
| "Error (AppError t m None) = errtype_text t @ '': '' @ m"
| "Error (AppError t m (Some c)) =
     errtype_text t @ '': '' @ m @ '' (caused by: '' @ Error c @ '')''"

fun errType :: "go_error \<Rightarrow> errtype option" where
  "errType (Foreign s) = None"
| "errType (AppError t m c) = Some t"

section \<open>Formatting (fmt, encoding/hex)\<close>

text \<open>
  The verb \<open>%d\<close> of \<open>fmt.Sprintf\<close> on an \<open>int64\<close>: decimal digits, most significant
  first, with a leading minus sign for a negative value.
\<close>

definition digit_char :: "nat \<Rightarrow> char" where
  "digit_char d = ''0123456789abcdef'' ! d"

fun fmt_nat :: "nat \<Rightarrow> string" where
  "fmt_nat n = (if n < 10 then [digit_char n] else fmt_nat (n div 10) @ [digit_char (n mod 10)])"

definition fmt_d :: "int \<Rightarrow> string" where
  "fmt_d i = (if i < 0 then CHR ''-'' # fmt_nat (nat (- i)) else fmt_nat (nat i))"

section \<open>Configuration and the authorization roster (internal/config)\<close>

record TelegramConfig =
  BotToken :: string

record CloudflareConfig =
  AccountID :: string
  APIToken :: string

record LoggingConfig =
  Level :: string
  ToFile :: bool
  FilePath :: string

text \<open>User identities are Go \<open>int64\<close> values; they are only compared and printed.\<close>

record Config =
  Telegram :: TelegramConfig
  Cloudflare :: CloudflareConfig
  AuthorizedUsers :: "int list"
  AdminID :: int
  Logging :: LoggingConfig
  configPath :: string

section \<open>Limits (internal/constants)\<close>

definition MaxImageDimension :: int where
  "MaxImageDimension = 12000"

definition MaxImageArea :: int where
  "MaxImageArea = 100 * 1000 * 1000"

definition MaxAnimatedArea :: int where
  "MaxAnimatedArea = 50 * 1000 * 1000"

definition MaxFileSizeBytes :: int where
  "MaxFileSizeBytes = 10 * 1024 * 1024"

definition MaxMetadataSizeBytes :: int where
  "MaxMetadataSizeBytes = 1024"

section \<open>Effects\<close>

text \<open>
  Every call that leaves the program is recorded, in order, as an action: the messages
  sent and edited on the chat, the file lookups and downloads, the calls into the image,
  EXIF and JSON libraries, and the request sent to the image host. Log output is not
  recorded. The chat texts are kept as constructors; those that embed a computed text
  carry it.
\<close>

datatype chat_text =
    TxtUnauthorized
  | TxtWelcome
  | TxtNoPhoto
  | TxtConfirmPrompt
  | TxtNoDocument
  | TxtNotImage
  | TxtNoPending
  | TxtProcessing
  | TxtCancelled
  | TxtUnknownOp
  | TxtDownloading
  | TxtFileInfoError
  | TxtDownloadError
  | TxtReadError
  | TxtValidating
  | TxtValidationFailed string
  | TxtUploading
  | TxtUploadFailed string
  | TxtURLFailed string
  | TxtSuccess string

text \<open>The inline keyboard of the confirmation prompt: a row of buttons, each with its
  callback data.\<close>

datatype button = BtnConfirm | BtnCancel

type_synonym markup = "(button \<times> string) list list"

text \<open>The multipart form built for the image host, and the request carrying it.\<close>

record multipart =
  form_file_name :: string
  form_file_data :: "8 word list"
  form_fields :: "(string \<times> string) list"

record http_request =
  req_method :: string
  req_url :: string
  req_authorization :: string
  req_content_type :: string
  req_body :: multipart

datatype action =
    Ctx_Send chat_text "markup option"
  | Ctx_Edit chat_text
  | Ctx_Respond
  | Bot_Send chat_text
  | Bot_Edit chat_text
  | Bot_FileByID string
  | Http_Get string
  | Image_DecodeConfig
  | Exif_Decode
  | Json_Marshal
  | Cf_Http_Do http_request

section \<open>The image validator (internal/validator)\<close>

text \<open>
  Go's \<open>int\<close> is taken as 64 bits wide; a product wraps around in two's complement.
\<close>

definition int64_wrap :: "int \<Rightarrow> int" where
  "int64_wrap x = (x + 2 ^ 63) mod 2 ^ 64 - 2 ^ 63"

record image_Config =
  Config_Width :: int
  Config_Height :: int

text \<open>
  The EXIF data of an image: \<open>Get\<close> finds a tag or fails, \<open>StringVal\<close> reads a tag as
  a string or fails.
\<close>

datatype FieldName = Make | Model | DateTime

datatype Tag = StringTag string | OtherTag

fun StringVal :: "Tag \<Rightarrow> string option" where
  "StringVal (StringTag s) = Some s"
| "StringVal OtherTag = None"

type_synonym Exif = "FieldName \<Rightarrow> Tag option"

text \<open>A metadata mapping \<open>map[string]interface{}\<close>: the values are strings and
  integers.\<close>

datatype jvalue = JString string | JInt int

type_synonym metadata = "string \<rightharpoonup> jvalue"

record Result =
  IsValid :: bool
  Format :: string
  Width :: int
  Height :: int
  Size :: int
  Metadata :: metadata

section \<open>The image host's answer (internal/cloudflare)\<close>

record UploadResponse =
  Success :: bool
  Result_ID :: string
  Result_Filename :: string
  Result_Uploaded :: string
  Result_Variants :: "string list"
  Errors :: "string list"

section \<open>The bot's state and its requests (internal/bot)\<close>

text \<open>
  Of the bot instance the handlers read the configuration and read and write the pending
  uploads, one file reference per user. A request carries what the handlers read from
  the transport's context: the sender, the photo's file reference, the document's file
  reference and MIME type, the callback's data; each of the latter three may be absent.
\<close>

record Bot =
  config :: Config
  pendingUploads :: "int \<rightharpoonup> string"

record Document =
  Document_FileID :: string
  Document_MIME :: string

record tcontext =
  Sender_ID :: int
  Sender_Username :: string
  Message_Photo :: "string option"
  Message_Document :: "Document option"
  Callback_Data :: "string option"

section \<open>The world outside the program\<close>

text \<open>
  What the program calls and does not define is a parameter of the model, one field per
  call, answering with the call's result:
  \<^item> the file system and the YAML encoder: \<open>yaml.Marshal\<close> yields the encoded bytes or
    an error text, \<open>os.WriteFile\<close> an error text or nothing;
  \<^item> the decoders and the JSON encoder: \<open>image.DecodeConfig\<close> reads the container
    header and yields the configuration and the format name or an error text,
    \<open>exif.Decode\<close> the EXIF data or nothing, \<open>json.Marshal\<close> the encoded bytes or
    an error text, \<open>json.Unmarshal\<close> the parsed answer or an error text;
  \<^item> the clock, the random source (its bytes by position), the multipart writer (the
    error of each of its steps, and its content type) and the HTTP client of the upload
    (\<open>http.NewRequest\<close>, then \<open>Do\<close> followed by reading the body);
  \<^item> the chat transport: sending and editing through the context, sending (which
    yields a message to edit, or an error and no message) and editing through the bot,
    the bot's URL and token, the file lookup, and the download (\<open>Get\<close> followed by
    reading the body).
\<close>

record world =
  yaml_Marshal :: "Config \<Rightarrow> string + string"
  os_WriteFile :: "string \<Rightarrow> string \<Rightarrow> string option"
  image_DecodeConfig :: "8 word list \<Rightarrow> string + (image_Config \<times> string)"
  exif_Decode :: "8 word list \<Rightarrow> Exif option"
  json_Marshal :: "metadata \<Rightarrow> string + string"
  json_Unmarshal :: "string \<Rightarrow> string + UploadResponse"
  time_Now_Unix :: int
  rand_Read :: "nat \<Rightarrow> 8 word"
  mp_CreateFormFile :: "string \<Rightarrow> string option"
  mp_Write :: "8 word list \<Rightarrow> string option"
  mp_Close :: "string option"
  mp_FormDataContentType :: string
  http_NewRequest :: "string \<Rightarrow> string option"
  http_Do :: "http_request \<Rightarrow> string + (string + string)"
  ctx_Send :: "chat_text \<Rightarrow> string option"
  ctx_Edit :: "chat_text \<Rightarrow> string option"
  bot_Send :: "chat_text \<Rightarrow> string option"
  bot_Edit :: "chat_text \<Rightarrow> string option"
  bot_URL :: string
  bot_Token :: string
  bot_FileByID :: "string \<Rightarrow> string + string"
  http_Get :: "string \<Rightarrow> string + (string + 8 word list)"

section \<open>The roster's operations (internal/config)\<close>

definition Save :: "world \<Rightarrow> Config \<Rightarrow> go_error option" where
  "Save W c =
     (if configPath c = [] then Some (New ErrInvalidConfig ''config path not set'')
      else case yaml_Marshal W c of
             Inl err \<Rightarrow> Some (Wrap ErrInvalidConfig ''failed to marshal config'' (Foreign err))
           | Inr data \<Rightarrow>
               (case os_WriteFile W (configPath c) data of
                  Some err \<Rightarrow>
                    Some (Wrap ErrInvalidConfig ''failed to write config file'' (Foreign err))
                | None \<Rightarrow> None))"

text \<open>The loop of \<open>IsAuthorized\<close> over the list, returning at the first equal entry.\<close>

primrec id_listed :: "int \<Rightarrow> int list \<Rightarrow> bool" where
  "id_listed userID [] = False"
| "id_listed userID (x # xs) = (if x = userID then True else id_listed userID xs)"

definition IsAuthorized :: "Config \<Rightarrow> int \<Rightarrow> bool" where
  "IsAuthorized c userID =
     (if userID = AdminID c then True else id_listed userID (AuthorizedUsers c))"

definition IsAdmin :: "Config \<Rightarrow> int \<Rightarrow> bool" where
  "IsAdmin c userID = (userID = AdminID c)"

text \<open>
  \<open>AddAuthorizedUser\<close> appends to the in-memory slice and then returns what \<open>Save\<close>
  returns. The result is the returned error and the configuration left in memory.
\<close>

definition AddAuthorizedUser :: "world \<Rightarrow> Config \<Rightarrow> int \<Rightarrow> go_error option \<times> Config" where
  "AddAuthorizedUser W c userID =
     (if IsAuthorized c userID
      then (Some (New ErrUserAlreadyExists
                    (''user '' @ fmt_d userID @ '' is already authorized'')), c)
      else let c' = c\<lparr>AuthorizedUsers := AuthorizedUsers c @ [userID]\<rparr>
           in (Save W c', c'))"

text \<open>
  The loop of \<open>RemoveAuthorizedUser\<close>: the index of the first entry equal to the user,
  which is then cut out of the slice.
\<close>

primrec first_index :: "int \<Rightarrow> int list \<Rightarrow> nat option" where
  "first_index userID [] = None"
| "first_index userID (x # xs) =
     (if x = userID then Some 0 else map_option Suc (first_index userID xs))"

definition RemoveAuthorizedUser :: "world \<Rightarrow> Config \<Rightarrow> int \<Rightarrow> go_error option \<times> Config" where
  "RemoveAuthorizedUser W c userID =
     (if userID = AdminID c then (Some (New ErrInvalidConfig ''cannot remove admin user''), c)
      else case first_index userID (AuthorizedUsers c) of
             None \<Rightarrow>
               (Some (New ErrUserNotFound
                        (''user '' @ fmt_d userID @ '' is not in authorized list'')), c)
           | Some i \<Rightarrow>
               let c' = c\<lparr>AuthorizedUsers :=
                            take i (AuthorizedUsers c) @ drop (Suc i) (AuthorizedUsers c)\<rparr>
               in (Save W c', c'))"

section \<open>Validation (internal/validator)\<close>

text \<open>One EXIF field: stored under the key when both \<open>Get\<close> and \<open>StringVal\<close>
  succeed.\<close>

definition put_field :: "Exif \<Rightarrow> FieldName \<Rightarrow> string \<Rightarrow> metadata \<Rightarrow> metadata" where
  "put_field exifData name key m =
     (case exifData name of
        None \<Rightarrow> m
      | Some tag \<Rightarrow> (case StringVal tag of None \<Rightarrow> m | Some str \<Rightarrow> m(key \<mapsto> JString str)))"

definition extractMetadata :: "world \<Rightarrow> 8 word list \<Rightarrow> string \<Rightarrow> metadata \<times> action list" where
  "extractMetadata W imageBytes format =
     (let metadata = [''format'' \<mapsto> JString format]
      in if format \<noteq> ''jpeg'' then (metadata, [])
         else case exif_Decode W imageBytes of
                None \<Rightarrow> (metadata, [Exif_Decode])
              | Some exifData \<Rightarrow>
                  (put_field exifData DateTime ''date_time''
                     (put_field exifData Model ''camera_model''
                        (put_field exifData Make ''camera_make'' metadata)),
                   [Exif_Decode]))"

text \<open>The length of what \<open>json.Marshal\<close> returned; its error is dropped, which leaves
  a nil slice.\<close>

definition marshal_len :: "world \<Rightarrow> metadata \<Rightarrow> int" where
  "marshal_len W m = (case json_Marshal W m of Inl err \<Rightarrow> 0 | Inr js \<Rightarrow> int (length js))"

definition Validate :: "world \<Rightarrow> 8 word list \<Rightarrow> (go_error + Result) \<times> action list" where
  "Validate W imageBytes =
     (if int (length imageBytes) > MaxFileSizeBytes
      then (Inl (New ErrImageTooLarge
                   (''image size '' @ fmt_d (int (length imageBytes)) @ '' exceeds limit ''
                      @ fmt_d MaxFileSizeBytes @ '' bytes'')), [])
      else case image_DecodeConfig W imageBytes of
             Inl err \<Rightarrow>
               (Inl (Wrap ErrInvalidImage ''failed to decode image'' (Foreign err)),
                [Image_DecodeConfig])
           | Inr (imgConfig, format) \<Rightarrow>
               if Config_Width imgConfig > MaxImageDimension
                    \<or> Config_Height imgConfig > MaxImageDimension
               then (Inl (New ErrImageTooBig
                            (''image dimensions '' @ fmt_d (Config_Width imgConfig) @ ''x''
                               @ fmt_d (Config_Height imgConfig) @ '' exceed limit ''
                               @ fmt_d MaxImageDimension)),
                     [Image_DecodeConfig])
               else
                 let area = int64_wrap (Config_Width imgConfig * Config_Height imgConfig);
                     maxArea = (if format = ''gif'' then MaxAnimatedArea else MaxImageArea)
                 in if area > maxArea
                    then (Inl (New ErrImageTooBig
                                 (''image area '' @ fmt_d area @ '' exceeds limit ''
                                    @ fmt_d maxArea)),
                          [Image_DecodeConfig])
                    else
                      let (extracted, calls) = extractMetadata W imageBytes format;
                          metadata =
                            (if marshal_len W extracted > MaxMetadataSizeBytes
                             then [''format'' \<mapsto> JString format,
                                   ''width'' \<mapsto> JInt (Config_Width imgConfig),
                                   ''height'' \<mapsto> JInt (Config_Height imgConfig),
                                   ''size'' \<mapsto> JInt (int (length imageBytes))]
                             else extracted)
                      in (Inr \<lparr>IsValid = True, Format = format,
                                Width = Config_Width imgConfig, Height = Config_Height imgConfig,
                                Size = int (length imageBytes), Metadata = metadata\<rparr>,
                          [Image_DecodeConfig] @ calls @ [Json_Marshal]))"

section \<open>The upload client (internal/cloudflare)\<close>

text \<open>\<open>hex.EncodeToString\<close>: two lower-case digits per byte, the high half first.\<close>

definition hex_byte :: "8 word \<Rightarrow> string" where
  "hex_byte v = [digit_char (unat (drop_bit 4 v)), digit_char (unat (v AND 0x0f))]"

definition EncodeToString :: "8 word list \<Rightarrow> string" where
  "EncodeToString src = concat (map hex_byte src)"

text \<open>
  \<open>generateFilename\<close> fills the template \<open>%d_%d_%s.jpg\<close> with the user, the Unix time
  and the hexadecimal form of four random bytes.
\<close>

definition generateFilename :: "world \<Rightarrow> int \<Rightarrow> string" where
  "generateFilename W userID =
     (let timestamp = time_Now_Unix W;
          randomBytes = map (rand_Read W) [0, 1, 2, 3];
          randomStr = EncodeToString randomBytes
      in fmt_d userID @ ''_'' @ fmt_d timestamp @ ''_'' @ randomStr @ ''.jpg'')"

definition allowed :: "string set" where
  "allowed = {''width'', ''height'', ''format'', ''file_size'', ''camera_make'', ''camera_model''}"

definition filterMetadata :: "metadata \<Rightarrow> metadata" where
  "filterMetadata m = m |` allowed"

text \<open>
  \<open>buildMultipartBody\<close>: the file part, then the field \<open>metadata\<close> when the filtered
  mapping is not empty and its JSON form is shorter than the limit, then the field
  \<open>requireSignedURLs\<close>. A nil mapping is \<open>None\<close>. The errors of \<open>json.Marshal\<close> and
  of \<open>WriteField\<close> are dropped by the source.
\<close>

definition metadata_field :: "world \<Rightarrow> metadata option \<Rightarrow> (string \<times> string) list \<times> action list" where
  "metadata_field W metadata =
     (case metadata of
        None \<Rightarrow> ([], [])
      | Some m \<Rightarrow>
          let filtered = filterMetadata m
          in if dom filtered \<noteq> {}
             then let metaJSON = (case json_Marshal W filtered of Inl err \<Rightarrow> [] | Inr js \<Rightarrow> js)
                  in (if int (length metaJSON) < MaxMetadataSizeBytes
                      then [(''metadata'', metaJSON)] else [],
                      [Json_Marshal])
             else ([], []))"

definition buildMultipartBody ::
  "world \<Rightarrow> 8 word list \<Rightarrow> string \<Rightarrow> metadata option
     \<Rightarrow> (go_error + multipart \<times> string) \<times> action list" where
  "buildMultipartBody W imageBytes filename metadata =
     (case mp_CreateFormFile W filename of
        Some err \<Rightarrow> (Inl (Wrap ErrUploadFailed ''failed to create form file'' (Foreign err)), [])
      | None \<Rightarrow>
          (case mp_Write W imageBytes of
             Some err \<Rightarrow>
               (Inl (Wrap ErrUploadFailed ''failed to write image data'' (Foreign err)), [])
           | None \<Rightarrow>
               let (meta, calls) = metadata_field W metadata;
                   body = \<lparr>form_file_name = filename, form_file_data = imageBytes,
                           form_fields = meta @ [(''requireSignedURLs'', ''false'')]\<rparr>
               in (case mp_Close W of
                     Some err \<Rightarrow>
                       (Inl (Wrap ErrUploadFailed ''failed to close writer'' (Foreign err)), calls)
                   | None \<Rightarrow> (Inr (body, mp_FormDataContentType W), calls))))"

text \<open>The verb \<open>%v\<close> on a slice of strings: the entries between brackets, separated
  by spaces.\<close>

fun join_space :: "string list \<Rightarrow> string" where
  "join_space [] = []"
| "join_space [x] = x"
| "join_space (x # y # ys) = x @ '' '' @ join_space (y # ys)"

definition fmt_v :: "string list \<Rightarrow> string" where
  "fmt_v msgs = ''['' @ join_space msgs @ '']''"

definition Upload ::
  "world \<Rightarrow> Config \<Rightarrow> 8 word list \<Rightarrow> int \<Rightarrow> metadata option
     \<Rightarrow> (go_error + UploadResponse) \<times> action list" where
  "Upload W cfg imageBytes userID metadata =
     (let filename = generateFilename W userID
      in (case buildMultipartBody W imageBytes filename metadata of
            (Inl err, calls) \<Rightarrow> (Inl err, calls)
          | (Inr (body, contentType), calls) \<Rightarrow>
              (let url = ''https://api.cloudflare.com/client/v4/accounts/''
                           @ AccountID (Cloudflare cfg) @ ''/images/v1''
               in (case http_NewRequest W url of
                     Some err \<Rightarrow>
                       (Inl (Wrap ErrUploadFailed ''failed to create request'' (Foreign err)),
                        calls)
                   | None \<Rightarrow>
                       (let req = \<lparr>req_method = ''POST'', req_url = url,
                                   req_authorization = ''Bearer '' @ APIToken (Cloudflare cfg),
                                   req_content_type = contentType, req_body = body\<rparr>;
                            sent = calls @ [Cf_Http_Do req]
                        in (case http_Do W req of
                              Inl err \<Rightarrow>
                                (Inl (Wrap ErrUploadFailed ''request failed'' (Foreign err)),
                                 sent)
                            | Inr (Inl err) \<Rightarrow>
                                (Inl (Wrap ErrUploadFailed ''failed to read response''
                                        (Foreign err)), sent)
                            | Inr (Inr respBody) \<Rightarrow>
                                (case json_Unmarshal W respBody of
                                   Inl err \<Rightarrow>
                                     (Inl (Wrap ErrUploadFailed ''failed to parse response''
                                             (Foreign err)), sent)
                                 | Inr result \<Rightarrow>
                                     (if \<not> Success result
                                      then (Inl (New ErrCloudflareAPI
                                                   (''API errors: ''
                                                      @ fmt_v (Errors result))), sent)
                                      else (Inr result, sent)))))))))"

text \<open>\<open>GetImageURL\<close>; a nil response is \<open>None\<close>.\<close>

definition GetImageURL :: "UploadResponse option \<Rightarrow> go_error + string" where
  "GetImageURL resp =
     (case resp of
        None \<Rightarrow> Inl (New ErrCloudflareAPI ''invalid response'')
      | Some r \<Rightarrow>
          if \<not> Success r then Inl (New ErrCloudflareAPI ''invalid response'')
          else (case Result_Variants r of
                  [] \<Rightarrow> Inl (New ErrCloudflareAPI ''no image variants in response'')
                | v # vs \<Rightarrow> Inr v))"

section \<open>String functions (strings)\<close>

text \<open>
  \<open>strings.TrimSpace\<close> removes leading and trailing white space as Unicode defines
  it. A Go string is a byte sequence in UTF-8, so the white space characters are the
  byte sequences below: U+0009 to U+000D, U+0020, U+0085, U+00A0, U+1680, U+2000 to
  U+200A, U+2028, U+2029, U+202F, U+205F and U+3000.
\<close>

definition white_space :: "string list" where
  "white_space =
     [[CHR 0x09], [CHR 0x0A], [CHR 0x0B], [CHR 0x0C], [CHR 0x0D], [CHR 0x20],
      [CHR 0xC2, CHR 0x85], [CHR 0xC2, CHR 0xA0],
      [CHR 0xE1, CHR 0x9A, CHR 0x80],
      [CHR 0xE2, CHR 0x80, CHR 0x80], [CHR 0xE2, CHR 0x80, CHR 0x81],
      [CHR 0xE2, CHR 0x80, CHR 0x82], [CHR 0xE2, CHR 0x80, CHR 0x83],
      [CHR 0xE2, CHR 0x80, CHR 0x84], [CHR 0xE2, CHR 0x80, CHR 0x85],
      [CHR 0xE2, CHR 0x80, CHR 0x86], [CHR 0xE2, CHR 0x80, CHR 0x87],
      [CHR 0xE2, CHR 0x80, CHR 0x88], [CHR 0xE2, CHR 0x80, CHR 0x89],
      [CHR 0xE2, CHR 0x80, CHR 0x8A],
      [CHR 0xE2, CHR 0x80, CHR 0xA8], [CHR 0xE2, CHR 0x80, CHR 0xA9],
      [CHR 0xE2, CHR 0x80, CHR 0xAF],
      [CHR 0xE2, CHR 0x81, CHR 0x9F],
      [CHR 0xE3, CHR 0x80, CHR 0x80]]"

text \<open>The number of bytes of the white space character a string starts with, 0 when
  it starts with none.\<close>

definition leading :: "string list \<Rightarrow> string \<Rightarrow> nat" where
  "leading spaces s = (case filter (\<lambda>t. prefix t s) spaces of [] \<Rightarrow> 0 | t # ts \<Rightarrow> length t)"

fun trim_front :: "string list \<Rightarrow> string \<Rightarrow> string" where
  "trim_front spaces [] = []"
| "trim_front spaces (c # cs) =
     (if leading spaces (c # cs) = 0 then c # cs
      else trim_front spaces (drop (leading spaces (c # cs) - 1) cs))"

definition TrimSpace :: "string \<Rightarrow> string" where
  "TrimSpace s = rev (trim_front (map rev white_space) (rev (trim_front white_space s)))"

definition HasPrefix :: "string \<Rightarrow> string \<Rightarrow> bool" where
  "HasPrefix s p = prefix p s"

section \<open>The handlers (internal/bot)\<close>

text \<open>
  A handler takes the world, the bot and the request and yields the error it returns,
  the bot it leaves and the actions it performed. The status message of an upload is
  edited only when sending it had yielded a message.
\<close>

definition edit_status :: "bool \<Rightarrow> chat_text \<Rightarrow> action list" where
  "edit_status msg t = (if msg then [Bot_Edit t] else [])"

definition processImageUpload ::
  "world \<Rightarrow> Bot \<Rightarrow> tcontext \<Rightarrow> string \<Rightarrow> go_error option \<times> action list" where
  "processImageUpload W b c fileID =
     (let userID = Sender_ID c;
          msg = (bot_Send W TxtDownloading = None);
          started = [Bot_Send TxtDownloading, Bot_FileByID fileID]
      in (case bot_FileByID W fileID of
            Inl err \<Rightarrow>
              (Some (Wrap ErrDownloadFailed ''failed to get file info'' (Foreign err)),
               started @ edit_status msg TxtFileInfoError)
          | Inr filePath \<Rightarrow>
              (let fileURL = bot_URL W @ ''/file/bot'' @ bot_Token W @ ''/'' @ filePath;
                   fetched = started @ [Http_Get fileURL]
               in (case http_Get W fileURL of
                     Inl err \<Rightarrow>
                       (Some (Wrap ErrDownloadFailed ''failed to download file'' (Foreign err)),
                        fetched @ edit_status msg TxtDownloadError)
                   | Inr (Inl err) \<Rightarrow>
                       (Some (Wrap ErrDownloadFailed ''failed to read file'' (Foreign err)),
                        fetched @ edit_status msg TxtReadError)
                   | Inr (Inr imageBytes) \<Rightarrow>
                       (case Validate W imageBytes of
                          (Inl err, vcalls) \<Rightarrow>
                            (Some err,
                             fetched @ edit_status msg TxtValidating @ vcalls
                               @ edit_status msg (TxtValidationFailed (Error err)))
                        | (Inr validationResult, vcalls) \<Rightarrow>
                            (let validated =
                                   fetched @ edit_status msg TxtValidating @ vcalls
                                     @ edit_status msg TxtUploading
                             in (case Upload W (config b) imageBytes userID
                                        (Some (Metadata validationResult)) of
                                   (Inl err, ucalls) \<Rightarrow>
                                     (Some err,
                                      validated @ ucalls
                                        @ edit_status msg (TxtUploadFailed (Error err)))
                                 | (Inr uploadResp, ucalls) \<Rightarrow>
                                     (case GetImageURL (Some uploadResp) of
                                        Inl err \<Rightarrow>
                                          (Some err,
                                           validated @ ucalls
                                             @ edit_status msg (TxtURLFailed (Error err)))
                                      | Inr imageURL \<Rightarrow>
                                          (if msg
                                           then (map_option Foreign
                                                   (bot_Edit W (TxtSuccess imageURL)),
                                                 validated @ ucalls
                                                   @ [Bot_Edit (TxtSuccess imageURL)])
                                           else (map_option Foreign
                                                   (ctx_Send W (TxtSuccess imageURL)),
                                                 validated @ ucalls
                                                   @ [Ctx_Send (TxtSuccess imageURL)
                                                        None]))))))))))"

text \<open>A handler that only answers on the chat: the reply's error is what it returns.\<close>

definition reply :: "world \<Rightarrow> Bot \<Rightarrow> chat_text \<Rightarrow> go_error option \<times> Bot \<times> action list" where
  "reply W b t = (map_option Foreign (ctx_Send W t), b, [Ctx_Send t None])"

definition handleStart :: "world \<Rightarrow> Bot \<Rightarrow> tcontext \<Rightarrow> go_error option \<times> Bot \<times> action list" where
  "handleStart W b c =
     (if \<not> IsAuthorized (config b) (Sender_ID c) then reply W b TxtUnauthorized
      else reply W b TxtWelcome)"

definition selector :: markup where
  "selector = [[(BtnConfirm, ''confirm_upload''), (BtnCancel, ''cancel_upload'')]]"

definition handlePhoto :: "world \<Rightarrow> Bot \<Rightarrow> tcontext \<Rightarrow> go_error option \<times> Bot \<times> action list" where
  "handlePhoto W b c =
     (let userID = Sender_ID c
      in if \<not> IsAuthorized (config b) userID then reply W b TxtUnauthorized
         else case Message_Photo c of
                None \<Rightarrow> reply W b TxtNoPhoto
              | Some photo_FileID \<Rightarrow>
                  (map_option Foreign (ctx_Send W TxtConfirmPrompt),
                   b\<lparr>pendingUploads := (pendingUploads b)(userID \<mapsto> photo_FileID)\<rparr>,
                   [Ctx_Send TxtConfirmPrompt (Some selector)]))"

definition handleDocument :: "world \<Rightarrow> Bot \<Rightarrow> tcontext \<Rightarrow> go_error option \<times> Bot \<times> action list" where
  "handleDocument W b c =
     (let userID = Sender_ID c
      in if \<not> IsAuthorized (config b) userID then reply W b TxtUnauthorized
         else case Message_Document c of
                None \<Rightarrow> reply W b TxtNoDocument
              | Some doc \<Rightarrow>
                  if \<not> HasPrefix (Document_MIME doc) ''image/'' then reply W b TxtNotImage
                  else let (err, acts) = processImageUpload W b c (Document_FileID doc)
                       in (err, b, acts))"

text \<open>A handler that answers a callback by editing the message the button was on.\<close>

definition answer :: "world \<Rightarrow> Bot \<Rightarrow> chat_text \<Rightarrow> go_error option \<times> Bot \<times> action list" where
  "answer W b t = (map_option Foreign (ctx_Edit W t), b, [Ctx_Respond, Ctx_Edit t])"

definition handleCallback :: "world \<Rightarrow> Bot \<Rightarrow> tcontext \<Rightarrow> go_error option \<times> Bot \<times> action list" where
  "handleCallback W b c =
     (case Callback_Data c of
        None \<Rightarrow> (None, b, [])
      | Some callback_Data \<Rightarrow>
          let userID = Sender_ID c;
              data = TrimSpace callback_Data
          in if data = ''confirm_upload''
             then (case pendingUploads b userID of
                     None \<Rightarrow> answer W b TxtNoPending
                   | Some fileID \<Rightarrow>
                       let b' = b\<lparr>pendingUploads := (pendingUploads b)(userID := None)\<rparr>;
                           (err, acts) = processImageUpload W b' c fileID
                       in (err, b', [Ctx_Respond, Ctx_Edit TxtProcessing] @ acts))
             else if data = ''cancel_upload''
             then answer W (b\<lparr>pendingUploads := (pendingUploads b)(userID := None)\<rparr>)
                    TxtCancelled
             else answer W b TxtUnknownOp)"

text \<open>Whether an action is a file lookup.\<close>

definition lookup :: "action \<Rightarrow> bool" where
  "lookup a = (case a of Bot_FileByID f \<Rightarrow> True | _ \<Rightarrow> False)"



text \<open>The three components of a handler's outcome.\<close>

definition returned :: "go_error option \<times> Bot \<times> action list \<Rightarrow> go_error option" where
  "returned out = fst out"

definition bot_after :: "go_error option \<times> Bot \<times> action list \<Rightarrow> Bot" where
  "bot_after out = fst (snd out)"

definition performed :: "go_error option \<times> Bot \<times> action list \<Rightarrow> action list" where
  "performed out = snd (snd out)"

text \<open>Whether a validation fails with an error of a given type.\<close>

definition fails_with :: "(go_error + Result) \<times> action list \<Rightarrow> errtype \<Rightarrow> bool" where
  "fails_with out t = (case fst out of Inl err \<Rightarrow> errType err = Some t | Inr r \<Rightarrow> False)"

section \<open>Example inputs\<close>

text \<open>
  A world in which every call succeeds: the disk takes every write, every image is a
  JPEG of 800 by 600 pixels without EXIF data, the image host answers with one variant.
\<close>

definition quiet_world :: world where
  "quiet_world =
     \<lparr>yaml_Marshal = (\<lambda>c. Inr ''admin_id: 1''),
      os_WriteFile = (\<lambda>path data. None),
      image_DecodeConfig = (\<lambda>b. Inr (\<lparr>Config_Width = 800, Config_Height = 600\<rparr>, ''jpeg'')),
      exif_Decode = (\<lambda>b. None),
      json_Marshal = (\<lambda>m. Inr ''{}''),
      json_Unmarshal =
        (\<lambda>body. Inr \<lparr>Success = True, Result_ID = ''id1'', Result_Filename = ''f.jpg'',
                        Result_Uploaded = ''2024'',
                        Result_Variants = [''https://img.example/id1/public''],
                        Errors = []\<rparr>),
      time_Now_Unix = 1700000000,
      rand_Read = (\<lambda>i. if i = 0 then 0xde else if i = 1 then 0xad
                         else if i = 2 then 0xbe else 0xef),
      mp_CreateFormFile = (\<lambda>filename. None),
      mp_Write = (\<lambda>b. None),
      mp_Close = None,
      mp_FormDataContentType = ''multipart/form-data; boundary=xyz'',
      http_NewRequest = (\<lambda>url. None),
      http_Do = (\<lambda>req. Inr (Inr ''{}'')),
      ctx_Send = (\<lambda>t. None),
      ctx_Edit = (\<lambda>t. None),
      bot_Send = (\<lambda>t. None),
      bot_Edit = (\<lambda>t. None),
      bot_URL = ''https://api.telegram.org'',
      bot_Token = ''T'',
      bot_FileByID = (\<lambda>fileID. Inr (''photos/'' @ fileID)),
      http_Get = (\<lambda>url. Inr (Inr [0xFF, 0xD8]))\<rparr>"

text \<open>The same world with a disk that refuses every write.\<close>

definition full_disk :: world where
  "full_disk = quiet_world\<lparr>os_WriteFile := (\<lambda>path data. Some ''no space left on device'')\<rparr>"

text \<open>The same world where every image is a JPEG of 12000 by 12000 pixels.\<close>

definition large_images :: world where
  "large_images =
     quiet_world\<lparr>image_DecodeConfig :=
                   (\<lambda>b. Inr (\<lparr>Config_Width = 12000, Config_Height = 12000\<rparr>, ''jpeg''))\<rparr>"


text \<open>The same world where the transport cannot resolve any file reference.\<close>

definition no_files :: world where
  "no_files = quiet_world\<lparr>bot_FileByID := (\<lambda>fileID. Inl ''file not found'')\<rparr>"

text \<open>The same world where JPEG images carry the maker, the model and the date.\<close>

definition with_exif :: world where
  "with_exif =
     quiet_world\<lparr>exif_Decode :=
                   (\<lambda>b. Some (\<lambda>name. case name of
                                        Make \<Rightarrow> Some (StringTag ''ACME'')
                                      | Model \<Rightarrow> Some (StringTag ''X100'')
                                      | DateTime \<Rightarrow> Some (StringTag ''2024:01:01 00:00:00'')))\<rparr>"

text \<open>A configuration with administrator 1 and the authorized user 7, and a bot with
  no pending upload.\<close>

definition roster17 :: Config where
  "roster17 =
     \<lparr>Telegram = \<lparr>BotToken = ''T''\<rparr>,
      Cloudflare = \<lparr>AccountID = ''acct'', APIToken = ''tok''\<rparr>,
      AuthorizedUsers = [7],
      AdminID = 1,
      Logging = \<lparr>Level = ''info'', ToFile = False, FilePath = ''logs/bot.log''\<rparr>,
      configPath = ''config.yaml''\<rparr>"

definition idle_bot :: Bot where
  "idle_bot = \<lparr>config = roster17, pendingUploads = Map.empty\<rparr>"

text \<open>Requests of a user: a photo, a document, a press on the confirm button.\<close>

definition photo_from :: "int \<Rightarrow> string \<Rightarrow> tcontext" where
  "photo_from u fileID =
     \<lparr>Sender_ID = u, Sender_Username = ''user'', Message_Photo = Some fileID,
      Message_Document = None, Callback_Data = None\<rparr>"

definition document_from :: "int \<Rightarrow> string \<Rightarrow> string \<Rightarrow> tcontext" where
  "document_from u fileID mime =
     \<lparr>Sender_ID = u, Sender_Username = ''user'', Message_Photo = None,
      Message_Document = Some \<lparr>Document_FileID = fileID, Document_MIME = mime\<rparr>,
      Callback_Data = None\<rparr>"

definition press_from :: "int \<Rightarrow> string \<Rightarrow> tcontext" where
  "press_from u data =
     \<lparr>Sender_ID = u, Sender_Username = ''user'', Message_Photo = None,
      Message_Document = None, Callback_Data = Some data\<rparr>"

text \<open>A bot where user 7 has the photo \<open>p1\<close> pending, the validation result of a JPEG
  without EXIF data, and an answer of the image host that reports success and lists no
  variant.\<close>

definition waiting_bot :: Bot where
  "waiting_bot = idle_bot\<lparr>pendingUploads := [7 \<mapsto> ''p1'']\<rparr>"




text \<open>The request that uploading the two bytes for user 42 sends in the quiet world, and
  the validation result of a JPEG with EXIF data.\<close>

definition example_request :: http_request where
  "example_request =
     \<lparr>req_method = ''POST'',
      req_url = ''https://api.cloudflare.com/client/v4/accounts/acct/images/v1'',
      req_authorization = ''Bearer tok'',
      req_content_type = ''multipart/form-data; boundary=xyz'',
      req_body = \<lparr>form_file_name = ''42_1700000000_deadbeef.jpg'',
                   form_file_data = [0xFF, 0xD8],
                   form_fields = [(''requireSignedURLs'', ''false'')]\<rparr>\<rparr>"

definition jpeg_result :: Result where
  "jpeg_result =
     \<lparr>IsValid = True, Format = ''jpeg'', Width = 800, Height = 600, Size = 2,
      Metadata = [''format'' \<mapsto> JString ''jpeg'', ''camera_make'' \<mapsto> JString ''ACME'',
                  ''camera_model'' \<mapsto> JString ''X100'',
                  ''date_time'' \<mapsto> JString ''2024:01:01 00:00:00'']\<rparr>"

section \<open>Properties of the roster\<close>

lemma id_listed_iff: "id_listed userID xs \<longleftrightarrow> userID \<in> set xs"
  by (induction xs) auto

lemma first_index_None: "first_index userID xs = None \<longleftrightarrow> userID \<notin> set xs"
  by (induction xs) auto

lemma first_index_cut:
  "first_index userID xs = Some i \<Longrightarrow> take i xs @ drop (Suc i) xs = remove1 userID xs"
  by (induction xs arbitrary: i) (auto split: if_splits)

lemma Save_errType: "Save W c = Some e \<Longrightarrow> errType e = Some ErrInvalidConfig"
  by (auto simp: Save_def New_def Wrap_def split: if_splits sum.splits option.splits)

lemma roster17_fields:
  "AdminID roster17 = 1" "AuthorizedUsers roster17 = [7]" "configPath roster17 = ''config.yaml''"
  by (simp_all add: roster17_def)

lemma Save_full_disk:
  "configPath c \<noteq> [] \<Longrightarrow>
   Save full_disk c = Some (Wrap ErrInvalidConfig ''failed to write config file''
                              (Foreign ''no space left on device''))"
  by (simp add: Save_def full_disk_def quiet_world_def)

text \<open>
  Claim C1, as amended. When a mutation of the roster passes its checks and the
  persistence step then fails with an error, the operation returns that error and the
  roster in memory keeps the change: the user stays appended after a failed add, and
  the first entry of the user stays removed after a failed remove. Nothing is rolled
  back.
\<close>

theorem save_failure_keeps_change:
  "(\<not> IsAuthorized c userID
      \<and> Save W (c\<lparr>AuthorizedUsers := AuthorizedUsers c @ [userID]\<rparr>) = Some e
     \<longrightarrow> AddAuthorizedUser W c userID
          = (Some e, c\<lparr>AuthorizedUsers := AuthorizedUsers c @ [userID]\<rparr>))
   \<and> (userID \<noteq> AdminID c \<and> userID \<in> set (AuthorizedUsers c)
      \<and> Save W (c\<lparr>AuthorizedUsers := remove1 userID (AuthorizedUsers c)\<rparr>) = Some e
     \<longrightarrow> RemoveAuthorizedUser W c userID
          = (Some e, c\<lparr>AuthorizedUsers := remove1 userID (AuthorizedUsers c)\<rparr>))"
proof (intro conjI impI)
  assume "\<not> IsAuthorized c userID
      \<and> Save W (c\<lparr>AuthorizedUsers := AuthorizedUsers c @ [userID]\<rparr>) = Some e"
  then show "AddAuthorizedUser W c userID
          = (Some e, c\<lparr>AuthorizedUsers := AuthorizedUsers c @ [userID]\<rparr>)"
    by (simp add: AddAuthorizedUser_def)
next
  assume a: "userID \<noteq> AdminID c \<and> userID \<in> set (AuthorizedUsers c)
      \<and> Save W (c\<lparr>AuthorizedUsers := remove1 userID (AuthorizedUsers c)\<rparr>) = Some e"
  then obtain i where i: "first_index userID (AuthorizedUsers c) = Some i"
    using first_index_None [of userID "AuthorizedUsers c"]
    by (cases "first_index userID (AuthorizedUsers c)") auto
  from a i show "RemoveAuthorizedUser W c userID
          = (Some e, c\<lparr>AuthorizedUsers := remove1 userID (AuthorizedUsers c)\<rparr>)"
    by (simp add: RemoveAuthorizedUser_def first_index_cut)
qed

text \<open>
  On a full disk, adding user 5 to the roster of administrator 1 and user 7 returns the
  write error and leaves the roster 7, 5; removing user 7 returns it and leaves the
  roster empty.
\<close>

theorem save_failure_keeps_change_witness:
  "\<not> IsAuthorized roster17 5
   \<and> Save full_disk (roster17\<lparr>AuthorizedUsers := AuthorizedUsers roster17 @ [5]\<rparr>) \<noteq> None
   \<and> fst (AddAuthorizedUser full_disk roster17 5) \<noteq> None
   \<and> AuthorizedUsers (snd (AddAuthorizedUser full_disk roster17 5)) = [7, 5]
   \<and> 7 \<noteq> AdminID roster17 \<and> 7 \<in> set (AuthorizedUsers roster17)
   \<and> Save full_disk (roster17\<lparr>AuthorizedUsers := remove1 7 (AuthorizedUsers roster17)\<rparr>) \<noteq> None
   \<and> fst (RemoveAuthorizedUser full_disk roster17 7) \<noteq> None
   \<and> AuthorizedUsers (snd (RemoveAuthorizedUser full_disk roster17 7)) = []"
proof -
  let ?e = "Wrap ErrInvalidConfig ''failed to write config file''
              (Foreign ''no space left on device'')"
  have gate: "\<not> IsAuthorized roster17 5"
    by (simp add: IsAuthorized_def roster17_fields)
  have s1: "Save full_disk (roster17\<lparr>AuthorizedUsers := AuthorizedUsers roster17 @ [5]\<rparr>) = Some ?e"
    by (simp add: Save_full_disk roster17_fields)
  have listed: "7 \<noteq> AdminID roster17 \<and> 7 \<in> set (AuthorizedUsers roster17)"
    by (simp add: roster17_fields)
  have s2: "Save full_disk (roster17\<lparr>AuthorizedUsers := remove1 7 (AuthorizedUsers roster17)\<rparr>)
              = Some ?e"
    by (simp add: Save_full_disk roster17_fields)
  have added: "AddAuthorizedUser full_disk roster17 5
                 = (Some ?e, roster17\<lparr>AuthorizedUsers := AuthorizedUsers roster17 @ [5]\<rparr>)"
    using save_failure_keeps_change [of roster17 5 full_disk ?e] gate s1 by blast
  have removed: "RemoveAuthorizedUser full_disk roster17 7
                   = (Some ?e, roster17\<lparr>AuthorizedUsers := remove1 7 (AuthorizedUsers roster17)\<rparr>)"
    using save_failure_keeps_change [of roster17 7 full_disk ?e] listed s2 by blast
  show ?thesis
    using gate listed by (simp add: Save_full_disk added removed roster17_fields)
qed

text \<open>
  The claim as stated fails there: the persistence step fails, an error is returned,
  and the roster in memory differs from the one before the call.
\<close>

theorem rollback_counterexample:
  "Save full_disk (snd (AddAuthorizedUser full_disk roster17 5)) \<noteq> None
   \<and> fst (AddAuthorizedUser full_disk roster17 5) \<noteq> None
   \<and> AuthorizedUsers (snd (AddAuthorizedUser full_disk roster17 5)) \<noteq> AuthorizedUsers roster17"
  by (simp add: AddAuthorizedUser_def IsAuthorized_def Save_full_disk Let_def roster17_fields)

text \<open>
  Claim C6, as amended. Adding the administrator always fails with the error that the
  user is already authorized. Adding a user fails with that error exactly when the user
  passed the authorization check before the call, and then the roster is unchanged.
  Otherwise the user is appended and the call returns what the persistence step
  returns: it succeeds exactly when the user was not authorized and the roster was
  saved.
\<close>

theorem add_authorized_outcome:
  "fst (AddAuthorizedUser W c (AdminID c))
     = Some (New ErrUserAlreadyExists (''user '' @ fmt_d (AdminID c) @ '' is already authorized''))
   \<and> ((\<exists>e. fst (AddAuthorizedUser W c userID) = Some e \<and> errType e = Some ErrUserAlreadyExists)
        \<longleftrightarrow> IsAuthorized c userID)
   \<and> (IsAuthorized c userID \<longrightarrow> snd (AddAuthorizedUser W c userID) = c)
   \<and> (\<not> IsAuthorized c userID \<longrightarrow>
        AddAuthorizedUser W c userID
          = (Save W (c\<lparr>AuthorizedUsers := AuthorizedUsers c @ [userID]\<rparr>),
             c\<lparr>AuthorizedUsers := AuthorizedUsers c @ [userID]\<rparr>))
   \<and> (fst (AddAuthorizedUser W c userID) = None
        \<longleftrightarrow> \<not> IsAuthorized c userID
            \<and> Save W (c\<lparr>AuthorizedUsers := AuthorizedUsers c @ [userID]\<rparr>) = None)"
  by (auto simp: AddAuthorizedUser_def IsAuthorized_def New_def Let_def dest: Save_errType)

text \<open>
  With administrator 1 and user 7 on the roster and a disk that takes the write, adding
  1 or 7 fails and adding 5 succeeds and leaves the roster 7, 5.
\<close>

theorem add_authorized_outcome_witness:
  "IsAuthorized roster17 7 \<and> \<not> IsAuthorized roster17 5
   \<and> fst (AddAuthorizedUser quiet_world roster17 1)
       = Some (New ErrUserAlreadyExists ''user 1 is already authorized'')
   \<and> AddAuthorizedUser quiet_world roster17 7
       = (Some (New ErrUserAlreadyExists ''user 7 is already authorized''), roster17)
   \<and> AddAuthorizedUser quiet_world roster17 5 = (None, roster17\<lparr>AuthorizedUsers := [7, 5]\<rparr>)"
proof -
  have a7: "IsAuthorized roster17 7" and a5: "\<not> IsAuthorized roster17 5"
    by (simp_all add: IsAuthorized_def roster17_fields)
  have quiet: "Save quiet_world (roster17\<lparr>AuthorizedUsers := AuthorizedUsers roster17 @ [5]\<rparr>) = None"
    by (simp add: Save_def quiet_world_def roster17_fields)
  have admin: "fst (AddAuthorizedUser quiet_world roster17 (AdminID roster17))
       = Some (New ErrUserAlreadyExists
                 (''user '' @ fmt_d (AdminID roster17) @ '' is already authorized''))"
    using add_authorized_outcome [of quiet_world roster17 5] by blast
  have unchanged: "snd (AddAuthorizedUser quiet_world roster17 7) = roster17"
    using add_authorized_outcome [of quiet_world roster17 7] a7 by blast
  have fresh: "AddAuthorizedUser quiet_world roster17 5
                 = (Save quiet_world (roster17\<lparr>AuthorizedUsers := AuthorizedUsers roster17 @ [5]\<rparr>),
                    roster17\<lparr>AuthorizedUsers := AuthorizedUsers roster17 @ [5]\<rparr>)"
    using add_authorized_outcome [of quiet_world roster17 5] a5 by blast
  have seven: "fst (AddAuthorizedUser quiet_world roster17 7)
                 = Some (New ErrUserAlreadyExists ''user 7 is already authorized'')"
    using a7 by (simp add: AddAuthorizedUser_def fmt_d_def digit_char_def)
  show ?thesis
    using a7 a5 admin unchanged seven fresh quiet
    by (simp add: roster17_fields fmt_d_def digit_char_def prod_eq_iff)
qed

text \<open>
  The claim as stated fails on a full disk: user 5 did not pass the authorization
  check, and adding the user fails all the same.
\<close>

theorem add_fails_unlisted_counterexample:
  "\<not> IsAuthorized roster17 5 \<and> fst (AddAuthorizedUser full_disk roster17 5) \<noteq> None"
  by (simp add: AddAuthorizedUser_def IsAuthorized_def Save_full_disk Let_def roster17_fields)

section \<open>Properties of the validator\<close>

lemma int64_wrap_id: "- (2 ^ 63) \<le> x \<Longrightarrow> x < 2 ^ 63 \<Longrightarrow> int64_wrap x = x"
  by (simp add: int64_wrap_def)

lemma small_product:
  fixes w h :: int
  assumes "0 \<le> w" "w \<le> 12000" "0 \<le> h" "h \<le> 12000"
  shows "0 \<le> w * h" and "w * h \<le> 144000000"
proof -
  show "0 \<le> w * h" using assms by simp
  have "w * h \<le> 12000 * 12000" using assms by (intro mult_mono) auto
  then show "w * h \<le> 144000000" by simp
qed

text \<open>
  Claim C3. A payload of more than 10 MiB fails validation with the error that the image
  is too large, whatever the decoders would answer, and validation has then called
  neither the image decoder nor the EXIF decoder: the byte length is checked before any
  decoding.
\<close>

theorem oversize_rejected_first:
  "int (length imageBytes) > 10 * 1024 * 1024 \<Longrightarrow>
   Validate W imageBytes
     = (Inl (New ErrImageTooLarge
               (''image size '' @ fmt_d (int (length imageBytes))
                  @ '' exceeds limit 10485760 bytes'')), [])
   \<and> fails_with (Validate W imageBytes) ErrImageTooLarge
   \<and> Image_DecodeConfig \<notin> set (snd (Validate W imageBytes))
   \<and> Exif_Decode \<notin> set (snd (Validate W imageBytes))"
  by (simp add: Validate_def MaxFileSizeBytes_def fails_with_def New_def fmt_d_def digit_char_def)

text \<open>A payload of 10 MiB and one byte.\<close>

theorem oversize_rejected_first_witness:
  "int (length (replicate 10485761 (0 :: 8 word))) > 10 * 1024 * 1024
   \<and> Validate quiet_world (replicate 10485761 0)
       = (Inl (New ErrImageTooLarge ''image size 10485761 exceeds limit 10485760 bytes''), [])"
  using oversize_rejected_first [of "replicate 10485761 0" quiet_world]
  by (simp add: fmt_d_def digit_char_def)

text \<open>
  Claim C4, as amended. A payload of at most 10 MiB that decodes to a width and a height,
  neither negative, whose product exceeds the ceiling of its format (50,000,000 pixels
  for the format \<open>gif\<close>, 100,000,000 for any other) fails validation with the error
  that the image is too big.
\<close>

theorem area_over_ceiling_rejected:
  assumes size: "int (length imageBytes) \<le> 10 * 1024 * 1024"
    and decoded: "image_DecodeConfig W imageBytes = Inr (imgConfig, format)"
    and width: "0 \<le> Config_Width imgConfig"
    and height: "0 \<le> Config_Height imgConfig"
    and area: "Config_Width imgConfig * Config_Height imgConfig
                 > (if format = ''gif'' then 50000000 else 100000000)"
  shows "fails_with (Validate W imageBytes) ErrImageTooBig"
proof (cases "Config_Width imgConfig > 12000 \<or> Config_Height imgConfig > 12000")
  case True
  with size decoded show ?thesis
    by (simp add: Validate_def MaxFileSizeBytes_def MaxImageDimension_def fails_with_def New_def)
next
  case False
  then have le: "Config_Width imgConfig \<le> 12000" "Config_Height imgConfig \<le> 12000" by auto
  have "int64_wrap (Config_Width imgConfig * Config_Height imgConfig)
          = Config_Width imgConfig * Config_Height imgConfig"
    using small_product [OF width le(1) height le(2)] by (intro int64_wrap_id) auto
  with size decoded False area show ?thesis
    by (auto simp: Validate_def MaxFileSizeBytes_def MaxImageDimension_def fails_with_def New_def
        MaxAnimatedArea_def MaxImageArea_def Let_def split: if_splits)
qed

text \<open>A small payload that decodes to a JPEG of 12000 by 12000 pixels.\<close>

theorem area_over_ceiling_rejected_witness:
  "int (length [0xFF, 0xD8 :: 8 word]) \<le> 10 * 1024 * 1024
   \<and> image_DecodeConfig large_images [0xFF, 0xD8]
       = Inr (\<lparr>Config_Width = 12000, Config_Height = 12000\<rparr>, ''jpeg'')
   \<and> (12000 :: int) * 12000 > (if ''jpeg'' = ''gif'' then 50000000 else 100000000)
   \<and> fails_with (Validate large_images [0xFF, 0xD8]) ErrImageTooBig"
proof -
  have d: "image_DecodeConfig large_images [0xFF, 0xD8]
             = Inr (\<lparr>Config_Width = 12000, Config_Height = 12000\<rparr>, ''jpeg'')"
    by (simp add: large_images_def quiet_world_def)
  have "fails_with (Validate large_images [0xFF, 0xD8]) ErrImageTooBig"
    by (rule area_over_ceiling_rejected [OF _ d]) simp_all
  with d show ?thesis by simp
qed

text \<open>
  The claim as stated fails for a payload of 10 MiB and one byte holding such an image:
  its area exceeds the ceiling, and validation fails with the error that the image is
  too large, not with the error that it is too big.
\<close>

theorem area_over_ceiling_counterexample:
  "image_DecodeConfig large_images (replicate 10485761 0)
     = Inr (\<lparr>Config_Width = 12000, Config_Height = 12000\<rparr>, ''jpeg'')
   \<and> (12000 :: int) * 12000 > 100000000
   \<and> \<not> fails_with (Validate large_images (replicate 10485761 0)) ErrImageTooBig
   \<and> fails_with (Validate large_images (replicate 10485761 0)) ErrImageTooLarge"
  by (simp add: Validate_def MaxFileSizeBytes_def fails_with_def New_def large_images_def
      quiet_world_def)

lemma digit_char_hex: "d < 16 \<Longrightarrow> digit_char d \<in> set ''0123456789abcdef''"
  unfolding digit_char_def by (rule nth_mem) simp

lemma dom_put_field: "dom (put_field exifData name key m) \<subseteq> insert key (dom m)"
  by (auto simp: put_field_def split: option.splits)

lemma put_field_keeps: "k \<in> dom m \<Longrightarrow> k \<in> dom (put_field exifData name key m)"
  by (auto simp: put_field_def split: option.splits)

lemma extractMetadata_dom:
  "dom (fst (extractMetadata W imageBytes format))
     \<subseteq> {''format'', ''camera_make'', ''camera_model'', ''date_time''}"
  "format \<noteq> ''jpeg'' \<Longrightarrow> dom (fst (extractMetadata W imageBytes format)) = {''format''}"
  "''format'' \<in> dom (fst (extractMetadata W imageBytes format))"
  by (auto simp: extractMetadata_def Let_def put_field_def split: option.splits if_splits)

lemma dom_filterMetadata: "dom (filterMetadata m) = dom m \<inter> allowed"
  by (simp add: filterMetadata_def)

lemma Validate_Inr:
  assumes "Validate W imageBytes = (Inr r, calls)"
  shows "\<exists>imgConfig. image_DecodeConfig W imageBytes = Inr (imgConfig, Format r)
           \<and> Width r = Config_Width imgConfig \<and> Height r = Config_Height imgConfig"
    and "IsValid r" and "Size r = int (length imageBytes)"
    and "Metadata r =
           (if marshal_len W (fst (extractMetadata W imageBytes (Format r))) > MaxMetadataSizeBytes
            then [''format'' \<mapsto> JString (Format r), ''width'' \<mapsto> JInt (Width r),
                  ''height'' \<mapsto> JInt (Height r), ''size'' \<mapsto> JInt (Size r)]
            else fst (extractMetadata W imageBytes (Format r)))"
  using assms
  by (auto simp: Validate_def Let_def split: if_splits sum.splits prod.splits)


section \<open>Properties of the upload client\<close>

lemma high_nibble: "unat (drop_bit 4 (v :: 8 word)) < 16"
proof -
  have "unat v < 256" using unsigned_less [of v, where 'a = nat] by simp
  then have "unat v div 16 < 16" by presburger
  then show ?thesis by (simp add: drop_bit_eq_div unat_div)
qed

lemma low_nibble: "unat ((v :: 8 word) AND 0x0f) < 16"
proof -
  have "v AND 0x0f \<le> 0x0f"
    by (rule word_and_le1)
  then have "unat (v AND 0x0f) \<le> 15"
    by (simp add: word_le_nat_alt)
  then show ?thesis
    by simp
qed

lemma hex_byte_digits: "length (hex_byte v) = 2" "set (hex_byte v) \<subseteq> set ''0123456789abcdef''"
  using digit_char_hex [OF high_nibble [of v]] digit_char_hex [OF low_nibble [of v]]
  by (simp_all add: hex_byte_def)

lemma EncodeToString_length: "length (EncodeToString src) = 2 * length src"
  by (induction src) (simp_all add: EncodeToString_def hex_byte_digits)

lemma EncodeToString_digits: "set (EncodeToString src) \<subseteq> set ''0123456789abcdef''"
  using hex_byte_digits(2) by (induction src) (auto simp: EncodeToString_def)

lemma buildMultipartBody_name:
  "buildMultipartBody W imageBytes filename metadata = (Inr (body, contentType), calls) \<Longrightarrow>
   form_file_name body = filename \<and> form_file_data body = imageBytes
   \<and> form_fields body = fst (metadata_field W metadata) @ [(''requireSignedURLs'', ''false'')]
   \<and> calls = snd (metadata_field W metadata)"
  by (auto simp: buildMultipartBody_def Let_def split: option.splits prod.splits)

lemma buildMultipartBody_calls:
  "set (snd (buildMultipartBody W imageBytes filename metadata)) \<subseteq> {Json_Marshal}"
  by (auto simp: buildMultipartBody_def metadata_field_def Let_def split: option.splits prod.splits if_splits)

lemma Upload_request:
  assumes "Cf_Http_Do req \<in> set (snd (Upload W cfg imageBytes userID metadata))"
  shows "form_file_name (req_body req) = generateFilename W userID"
    and "form_file_data (req_body req) = imageBytes"
    and "form_fields (req_body req)
           = fst (metadata_field W metadata) @ [(''requireSignedURLs'', ''false'')]"
proof -
  obtain res calls where b: "buildMultipartBody W imageBytes (generateFilename W userID) metadata = (res, calls)"
    by (cases "buildMultipartBody W imageBytes (generateFilename W userID) metadata")
  have c: "Cf_Http_Do req \<notin> set calls"
    using buildMultipartBody_calls [of W imageBytes "generateFilename W userID" metadata] b by auto
  show "form_file_name (req_body req) = generateFilename W userID"
    and "form_file_data (req_body req) = imageBytes"
    and "form_fields (req_body req)
           = fst (metadata_field W metadata) @ [(''requireSignedURLs'', ''false'')]"
    using assms b c buildMultipartBody_name [of W imageBytes "generateFilename W userID" metadata]
    by (auto simp: Upload_def Let_def split: sum.splits option.splits prod.splits if_splits)
qed


lemma quiet_world_fields:
  "os_WriteFile quiet_world path data = None"
  "image_DecodeConfig quiet_world b = Inr (\<lparr>Config_Width = 800, Config_Height = 600\<rparr>, ''jpeg'')"
  "exif_Decode quiet_world b = None"
  "json_Marshal quiet_world m = Inr ''{}''"
  "json_Unmarshal quiet_world body
     = Inr \<lparr>Success = True, Result_ID = ''id1'', Result_Filename = ''f.jpg'',
             Result_Uploaded = ''2024'',
             Result_Variants = [''https://img.example/id1/public''], Errors = []\<rparr>"
  "time_Now_Unix quiet_world = 1700000000"
  "rand_Read quiet_world i
     = (if i = 0 then 0xde else if i = 1 then 0xad else if i = 2 then 0xbe else 0xef)"
  "mp_CreateFormFile quiet_world filename = None"
  "mp_Write quiet_world b = None"
  "mp_Close quiet_world = None"
  "mp_FormDataContentType quiet_world = ''multipart/form-data; boundary=xyz''"
  "http_NewRequest quiet_world url = None"
  "http_Do quiet_world req = Inr (Inr ''{}'')"
  "ctx_Send quiet_world t = None"
  "ctx_Edit quiet_world t = None"
  "bot_Send quiet_world t = None"
  "bot_Edit quiet_world t = None"
  "bot_URL quiet_world = ''https://api.telegram.org''"
  "bot_Token quiet_world = ''T''"
  "bot_FileByID quiet_world fileID = Inr (''photos/'' @ fileID)"
  "http_Get quiet_world url = Inr (Inr [0xFF, 0xD8])"
  by (simp_all add: quiet_world_def)

lemma quiet_filename: "generateFilename quiet_world 42 = ''42_1700000000_deadbeef.jpg''"
  by (simp add: generateFilename_def quiet_world_fields fmt_d_def digit_char_def
      EncodeToString_def hex_byte_def)

lemma roster17_cloudflare:
  "AccountID (Cloudflare roster17) = ''acct''" "APIToken (Cloudflare roster17) = ''tok''"
  by (simp_all add: roster17_def)

lemma quiet_upload_plain:
  "Upload quiet_world roster17 [0xFF, 0xD8] 42 None
     = (Inr \<lparr>Success = True, Result_ID = ''id1'', Result_Filename = ''f.jpg'',
              Result_Uploaded = ''2024'',
              Result_Variants = [''https://img.example/id1/public''], Errors = []\<rparr>,
        [Cf_Http_Do example_request])"
  by (simp add: Upload_def quiet_filename buildMultipartBody_def metadata_field_def
      roster17_cloudflare example_request_def quiet_world_fields)

text \<open>
  Claim C8, as amended. The file name of every request that an upload sends to the image
  host is the user's number, the Unix time and the random string, joined by underscores
  and followed by the extension \<open>.jpg\<close>; the random string is the hexadecimal form of
  four random bytes, eight characters out of \<open>0123456789abcdef\<close>.
\<close>

theorem upload_filename:
  "Cf_Http_Do req \<in> set (snd (Upload W cfg imageBytes userID metadata)) \<Longrightarrow>
   form_file_name (req_body req)
     = fmt_d userID @ ''_'' @ fmt_d (time_Now_Unix W) @ ''_''
         @ EncodeToString (map (rand_Read W) [0, 1, 2, 3]) @ ''.jpg''
   \<and> length (EncodeToString (map (rand_Read W) [0, 1, 2, 3])) = 8
   \<and> set (EncodeToString (map (rand_Read W) [0, 1, 2, 3])) \<subseteq> set ''0123456789abcdef''"
  using Upload_request(1) [of req W cfg imageBytes userID metadata]
        EncodeToString_digits [of "map (rand_Read W) [0, 1, 2, 3]"]
  by (simp add: generateFilename_def Let_def EncodeToString_length)

text \<open>The upload of user 42 at time 1700000000 with the random bytes de, ad, be, ef.\<close>

theorem upload_filename_witness:
  "Cf_Http_Do example_request \<in> set (snd (Upload quiet_world roster17 [0xFF, 0xD8] 42 None))
   \<and> form_file_name (req_body example_request) = ''42_1700000000_deadbeef.jpg''
   \<and> EncodeToString (map (rand_Read quiet_world) [0, 1, 2, 3]) = ''deadbeef''"
proof -
  have sent: "Cf_Http_Do example_request
                \<in> set (snd (Upload quiet_world roster17 [0xFF, 0xD8] 42 None))"
    by (simp add: quiet_upload_plain)
  have hex: "EncodeToString (map (rand_Read quiet_world) [0, 1, 2, 3]) = ''deadbeef''"
    by (simp add: quiet_world_fields EncodeToString_def hex_byte_def digit_char_def)
  have "form_file_name (req_body example_request)
          = fmt_d 42 @ ''_'' @ fmt_d (time_Now_Unix quiet_world) @ ''_''
              @ EncodeToString (map (rand_Read quiet_world) [0, 1, 2, 3]) @ ''.jpg''"
    using upload_filename [OF sent] by blast
  then show ?thesis
    using sent hex by (simp add: example_request_def)
qed

text \<open>
  The claim as stated fails there: the three parts joined by underscores are
  \<open>42_1700000000_deadbeef\<close>, and the file name sent is not that string.
\<close>

theorem filename_suffix_counterexample:
  "Cf_Http_Do example_request \<in> set (snd (Upload quiet_world roster17 [0xFF, 0xD8] 42 None))
   \<and> fmt_d 42 @ ''_'' @ fmt_d (time_Now_Unix quiet_world) @ ''_''
        @ EncodeToString (map (rand_Read quiet_world) [0, 1, 2, 3]) = ''42_1700000000_deadbeef''
   \<and> form_file_name (req_body example_request) \<noteq> ''42_1700000000_deadbeef''"
  by (simp add: quiet_upload_plain)
     (simp add: example_request_def quiet_world_fields fmt_d_def digit_char_def
        EncodeToString_def hex_byte_def)

lemma metadata_field_filtered:
  "''format'' \<in> dom m \<Longrightarrow>
   metadata_field W (Some m)
     = (let metaJSON = (case json_Marshal W (filterMetadata m) of Inl err \<Rightarrow> [] | Inr js \<Rightarrow> js)
        in (if int (length metaJSON) < 1024 then [(''metadata'', metaJSON)] else [],
            [Json_Marshal]))"
proof -
  assume "''format'' \<in> dom m"
  moreover have "''format'' \<in> allowed" by (simp add: allowed_def)
  ultimately have "''format'' \<in> dom (filterMetadata m)" by (simp add: dom_filterMetadata)
  then have "dom (filterMetadata m) \<noteq> {}" by blast
  then show ?thesis
    by (simp add: metadata_field_def Let_def MaxMetadataSizeBytes_def del: dom_eq_empty_conv)
qed

lemma outside: "A \<subseteq> B \<Longrightarrow> x \<notin> B \<Longrightarrow> x \<notin> A"
  by blast

text \<open>
  Claim C10. When validation succeeds and the JSON form of the extracted metadata is
  within the limit of 1024 bytes, the keys of the result's metadata are among
  \<open>format\<close>, \<open>camera_make\<close>, \<open>camera_model\<close> and \<open>date_time\<close>, and are exactly
  \<open>format\<close> for a format other than \<open>jpeg\<close>. What the filter of the upload client
  keeps of it has its keys among \<open>format\<close>, \<open>camera_make\<close> and \<open>camera_model\<close>:
  no width, height or size. The form of every request sent for this upload carries the
  JSON form of that filtered mapping as its metadata field when it is shorter than 1024
  bytes and no metadata field otherwise.
\<close>

theorem forwarded_metadata_keys:
  assumes valid: "Validate W imageBytes = (Inr r, calls)"
    and fits: "marshal_len W (fst (extractMetadata W imageBytes (Format r))) \<le> 1024"
  shows "dom (Metadata r) \<subseteq> {''format'', ''camera_make'', ''camera_model'', ''date_time''}
    \<and> (Format r \<noteq> ''jpeg'' \<longrightarrow> dom (Metadata r) = {''format''})
    \<and> dom (filterMetadata (Metadata r)) \<subseteq> {''format'', ''camera_make'', ''camera_model''}
    \<and> ''width'' \<notin> dom (filterMetadata (Metadata r))
    \<and> ''height'' \<notin> dom (filterMetadata (Metadata r))
    \<and> ''file_size'' \<notin> dom (filterMetadata (Metadata r))
    \<and> ''size'' \<notin> dom (filterMetadata (Metadata r))
    \<and> (\<forall>req. Cf_Http_Do req \<in> set (snd (Upload W cfg imageBytes userID (Some (Metadata r))))
          \<longrightarrow> form_fields (req_body req)
                = (let metaJSON = (case json_Marshal W (filterMetadata (Metadata r)) of
                                     Inl err \<Rightarrow> [] | Inr js \<Rightarrow> js)
                   in (if int (length metaJSON) < 1024 then [(''metadata'', metaJSON)] else [])
                        @ [(''requireSignedURLs'', ''false'')]))"
proof -
  have m: "Metadata r = fst (extractMetadata W imageBytes (Format r))"
    using Validate_Inr(4) [OF valid] fits by (simp add: MaxMetadataSizeBytes_def)
  have keys: "dom (Metadata r) \<subseteq> {''format'', ''camera_make'', ''camera_model'', ''date_time''}"
    using extractMetadata_dom(1) [of W imageBytes "Format r"] by (simp add: m)
  have other: "Format r \<noteq> ''jpeg'' \<longrightarrow> dom (Metadata r) = {''format''}"
    using extractMetadata_dom(2) [of "Format r" W imageBytes] by (simp add: m)
  have fmt: "''format'' \<in> dom (Metadata r)"
    using extractMetadata_dom(3) [of W imageBytes "Format r"] by (simp add: m)
  have "''date_time'' \<notin> allowed" by (simp add: allowed_def)
  with keys have filtered:
    "dom (filterMetadata (Metadata r)) \<subseteq> {''format'', ''camera_make'', ''camera_model''}"
    unfolding dom_filterMetadata by blast
  have others: "''width'' \<notin> {''format'', ''camera_make'', ''camera_model''}"
    "''height'' \<notin> {''format'', ''camera_make'', ''camera_model''}"
    "''file_size'' \<notin> {''format'', ''camera_make'', ''camera_model''}"
    "''size'' \<notin> {''format'', ''camera_make'', ''camera_model''}"
    by simp_all
  have absent: "''width'' \<notin> dom (filterMetadata (Metadata r))"
    "''height'' \<notin> dom (filterMetadata (Metadata r))"
    "''file_size'' \<notin> dom (filterMetadata (Metadata r))"
    "''size'' \<notin> dom (filterMetadata (Metadata r))"
    by (rule outside [OF filtered], rule others)+
  have sent: "\<forall>req. Cf_Http_Do req \<in> set (snd (Upload W cfg imageBytes userID (Some (Metadata r))))
          \<longrightarrow> form_fields (req_body req)
                = (let metaJSON = (case json_Marshal W (filterMetadata (Metadata r)) of
                                     Inl err \<Rightarrow> [] | Inr js \<Rightarrow> js)
                   in (if int (length metaJSON) < 1024 then [(''metadata'', metaJSON)] else [])
                        @ [(''requireSignedURLs'', ''false'')])"
    using Upload_request(3) [of _ W cfg imageBytes userID "Some (Metadata r)"]
    by (simp add: metadata_field_filtered [OF fmt] Let_def)
  show ?thesis
    by (intro conjI) (rule keys other filtered absent sent)+
qed


lemma with_exif_fields:
  "image_DecodeConfig with_exif b = Inr (\<lparr>Config_Width = 800, Config_Height = 600\<rparr>, ''jpeg'')"
  "exif_Decode with_exif b
     = Some (\<lambda>name. case name of
                       Make \<Rightarrow> Some (StringTag ''ACME'')
                     | Model \<Rightarrow> Some (StringTag ''X100'')
                     | DateTime \<Rightarrow> Some (StringTag ''2024:01:01 00:00:00''))"
  "json_Marshal with_exif m = Inr ''{}''"
  by (simp_all add: with_exif_def quiet_world_def)

lemma with_exif_extract:
  "extractMetadata with_exif [0xFF, 0xD8] ''jpeg'' = (Metadata jpeg_result, [Exif_Decode])"
  by (simp add: extractMetadata_def put_field_def with_exif_fields jpeg_result_def)

lemma with_exif_valid:
  "Validate with_exif [0xFF, 0xD8]
     = (Inr jpeg_result, [Image_DecodeConfig, Exif_Decode, Json_Marshal])"
  by (simp add: Validate_def with_exif_fields(1) with_exif_extract marshal_len_def
      with_exif_fields(3) MaxFileSizeBytes_def MaxImageDimension_def MaxImageArea_def
      MaxAnimatedArea_def MaxMetadataSizeBytes_def int64_wrap_def)
     (simp add: jpeg_result_def)

text \<open>A JPEG with maker, model and date: the date is extracted and not forwarded.\<close>

theorem forwarded_metadata_keys_witness:
  "Validate with_exif [0xFF, 0xD8]
     = (Inr jpeg_result, [Image_DecodeConfig, Exif_Decode, Json_Marshal])
   \<and> marshal_len with_exif (fst (extractMetadata with_exif [0xFF, 0xD8] (Format jpeg_result)))
       \<le> 1024
   \<and> ''date_time'' \<in> dom (Metadata jpeg_result)
   \<and> dom (filterMetadata (Metadata jpeg_result)) \<subseteq> {''format'', ''camera_make'', ''camera_model''}
   \<and> ''width'' \<notin> dom (filterMetadata (Metadata jpeg_result))"
proof -
  have f: "Format jpeg_result = ''jpeg''" by (simp add: jpeg_result_def)
  have fits: "marshal_len with_exif (fst (extractMetadata with_exif [0xFF, 0xD8] (Format jpeg_result)))
                \<le> 1024"
    by (simp add: marshal_len_def with_exif_fields(3))
  have d: "''date_time'' \<in> dom (Metadata jpeg_result)" by (simp add: jpeg_result_def)
  show ?thesis
    using forwarded_metadata_keys [OF with_exif_valid fits] with_exif_valid fits d by blast
qed

section \<open>Properties of the handlers\<close>

lemma Validate_calls:
  "set (snd (Validate W imageBytes)) \<subseteq> {Image_DecodeConfig, Exif_Decode, Json_Marshal}"
  by (auto simp: Validate_def extractMetadata_def Let_def split: sum.splits prod.splits option.splits if_splits)

lemma Upload_calls:
  "a \<in> set (snd (Upload W cfg imageBytes userID metadata)) \<Longrightarrow>
   a = Json_Marshal \<or> (\<exists>req. a = Cf_Http_Do req)"
  using buildMultipartBody_calls [of W imageBytes "generateFilename W userID" metadata]
  by (auto simp: Upload_def Let_def split: sum.splits option.splits prod.splits if_splits)


lemma Upload_failure:
  "Upload W cfg imageBytes userID metadata = (Inl e, calls) \<Longrightarrow>
   errType e = Some ErrUploadFailed \<or> errType e = Some ErrCloudflareAPI"
  by (auto simp: Upload_def buildMultipartBody_def Let_def New_def Wrap_def
      split: sum.splits option.splits prod.splits if_splits)

lemma lookup_simps [simp]:
  "lookup (Bot_FileByID f)" "\<not> lookup (Ctx_Send t k)" "\<not> lookup (Ctx_Edit t)" "\<not> lookup Ctx_Respond"
  "\<not> lookup (Bot_Send t)" "\<not> lookup (Bot_Edit t)" "\<not> lookup (Http_Get u)"
  "\<not> lookup Image_DecodeConfig" "\<not> lookup Exif_Decode" "\<not> lookup Json_Marshal"
  "\<not> lookup (Cf_Http_Do req)"
  by (simp_all add: lookup_def)

lemma edit_status_lookup [simp]: "filter lookup (edit_status msg t) = []"
  by (simp add: edit_status_def)

lemma Validate_lookup [simp]: "filter lookup (snd (Validate W imageBytes)) = []"
  using Validate_calls [of W imageBytes] by (auto simp: filter_empty_conv)

lemma Upload_lookup [simp]: "filter lookup (snd (Upload W cfg imageBytes userID metadata)) = []"
  using Upload_calls [of _ W cfg imageBytes userID metadata] by (fastforce simp: filter_empty_conv)

lemma process_lookups:
  "filter lookup (snd (processImageUpload W b c fileID)) = [Bot_FileByID fileID]"
proof -
  have v: "\<And>x r calls. Validate W x = (r, calls) \<Longrightarrow> filter lookup calls = []"
    using Validate_lookup by (metis snd_conv)
  have u: "\<And>x i m r calls. Upload W (config b) x i m = (r, calls) \<Longrightarrow> filter lookup calls = []"
    using Upload_lookup by (metis snd_conv)
  show ?thesis
    by (auto simp: processImageUpload_def Let_def v u split: sum.splits prod.splits)
qed


lemma process_looks_up: "Bot_FileByID f \<in> set (snd (processImageUpload W b c fileID)) \<longleftrightarrow> f = fileID"
proof -
  have "Bot_FileByID f \<in> set (snd (processImageUpload W b c fileID))
          \<longleftrightarrow> Bot_FileByID f \<in> set (filter lookup (snd (processImageUpload W b c fileID)))"
    by simp
  then show ?thesis by (simp only: process_lookups) simp
qed

lemma idle_bot_fields: "config idle_bot = roster17" "pendingUploads idle_bot = Map.empty"
  by (simp_all add: idle_bot_def)

lemma from_fields:
  "Sender_ID (photo_from u f) = u" "Message_Photo (photo_from u f) = Some f"
  "Sender_ID (document_from u f m) = u"
  "Message_Document (document_from u f m) = Some \<lparr>Document_FileID = f, Document_MIME = m\<rparr>"
  "Sender_ID (press_from u d) = u" "Callback_Data (press_from u d) = Some d"
  by (simp_all add: photo_from_def document_from_def press_from_def)

text \<open>
  Claim C2. When the sender of a photo or of a document fails the authorization check,
  the handler sends the text that denies the authorization and does nothing else: the
  bot, and with it the pending uploads, is unchanged, and the only action performed is
  that message, so no file is looked up or downloaded and no request is sent to the
  image host. The handler returns what sending the message returned.
\<close>

theorem unauthorized_rejected:
  "\<not> IsAuthorized (config b) (Sender_ID c) \<Longrightarrow>
   handlePhoto W b c = (map_option Foreign (ctx_Send W TxtUnauthorized), b,
                         [Ctx_Send TxtUnauthorized None])
   \<and> handleDocument W b c = (map_option Foreign (ctx_Send W TxtUnauthorized), b,
                              [Ctx_Send TxtUnauthorized None])"
  by (simp add: handlePhoto_def handleDocument_def reply_def)

text \<open>User 5 is neither the administrator nor on the roster.\<close>

theorem unauthorized_rejected_witness:
  "\<not> IsAuthorized (config idle_bot) (Sender_ID (photo_from 5 ''p1''))
   \<and> handlePhoto quiet_world idle_bot (photo_from 5 ''p1'')
       = (None, idle_bot, [Ctx_Send TxtUnauthorized None])
   \<and> \<not> IsAuthorized (config idle_bot) (Sender_ID (document_from 5 ''d1'' ''image/png''))
   \<and> handleDocument quiet_world idle_bot (document_from 5 ''d1'' ''image/png'')
       = (None, idle_bot, [Ctx_Send TxtUnauthorized None])"
proof -
  have p: "\<not> IsAuthorized (config idle_bot) (Sender_ID (photo_from 5 ''p1''))"
    and d: "\<not> IsAuthorized (config idle_bot) (Sender_ID (document_from 5 ''d1'' ''image/png''))"
    by (simp_all add: idle_bot_fields from_fields IsAuthorized_def roster17_fields)
  show ?thesis
    using unauthorized_rejected [OF p, of quiet_world] unauthorized_rejected [OF d, of quiet_world] p d
    by (simp add: quiet_world_fields)
qed

text \<open>
  Claim C9. A press on the confirm button by a user with a pending upload removes the
  entry and runs the upload on the bot without it: whatever the world answers, so also
  when the upload fails, the user has no pending entry afterwards, and a second press
  only answers that nothing is pending.
\<close>

theorem confirm_consumes_pending:
  assumes press: "Callback_Data c = Some callback_Data"
    and confirm: "TrimSpace callback_Data = ''confirm_upload''"
    and pending: "pendingUploads b (Sender_ID c) = Some fileID"
  shows "handleCallback W b c
           = (fst (processImageUpload W (b\<lparr>pendingUploads := (pendingUploads b)(Sender_ID c := None)\<rparr>) c fileID),
              b\<lparr>pendingUploads := (pendingUploads b)(Sender_ID c := None)\<rparr>,
              [Ctx_Respond, Ctx_Edit TxtProcessing]
                @ snd (processImageUpload W (b\<lparr>pendingUploads := (pendingUploads b)(Sender_ID c := None)\<rparr>) c fileID))
    \<and> pendingUploads (bot_after (handleCallback W b c)) (Sender_ID c) = None
    \<and> handleCallback W (bot_after (handleCallback W b c)) c
        = (map_option Foreign (ctx_Edit W TxtNoPending), bot_after (handleCallback W b c),
           [Ctx_Respond, Ctx_Edit TxtNoPending])"
proof -
  let ?b' = "b\<lparr>pendingUploads := (pendingUploads b)(Sender_ID c := None)\<rparr>"
  have first: "handleCallback W b c
           = (fst (processImageUpload W ?b' c fileID), ?b',
              [Ctx_Respond, Ctx_Edit TxtProcessing] @ snd (processImageUpload W ?b' c fileID))"
    using press confirm pending by (simp add: handleCallback_def Let_def split: prod.splits)
  then have after: "bot_after (handleCallback W b c) = ?b'"
    by (simp add: bot_after_def)
  have gone: "pendingUploads ?b' (Sender_ID c) = None" by simp
  have again: "handleCallback W ?b' c
        = (map_option Foreign (ctx_Edit W TxtNoPending), ?b', [Ctx_Respond, Ctx_Edit TxtNoPending])"
    using press confirm by (simp add: handleCallback_def answer_def Let_def)
  show ?thesis
    unfolding after using first gone again by blast
qed


lemma no_files_fields:
  "bot_Send no_files t = None" "bot_FileByID no_files f = Inl ''file not found''"
  by (simp_all add: no_files_def quiet_world_def)

lemma confirm_trimmed: "TrimSpace ''confirm_upload'' = ''confirm_upload''"
  by (simp add: TrimSpace_def leading_def white_space_def)

text \<open>User 7 confirms the pending photo where the transport cannot resolve it: the
  handler returns the download error and the entry is gone.\<close>

theorem confirm_consumes_pending_witness:
  "Callback_Data (press_from 7 ''confirm_upload'') = Some ''confirm_upload''
   \<and> TrimSpace ''confirm_upload'' = ''confirm_upload''
   \<and> pendingUploads waiting_bot (Sender_ID (press_from 7 ''confirm_upload'')) = Some ''p1''
   \<and> returned (handleCallback no_files waiting_bot (press_from 7 ''confirm_upload''))
       = Some (Wrap ErrDownloadFailed ''failed to get file info'' (Foreign ''file not found''))
   \<and> pendingUploads (bot_after (handleCallback no_files waiting_bot (press_from 7 ''confirm_upload''))) 7
       = None"
proof -
  let ?c = "press_from 7 ''confirm_upload''"
  have press: "Callback_Data ?c = Some ''confirm_upload''" by (simp add: from_fields)
  have pending: "pendingUploads waiting_bot (Sender_ID ?c) = Some ''p1''"
    by (simp add: from_fields waiting_bot_def)
  have failed: "fst (processImageUpload no_files b ?c ''p1'')
                  = Some (Wrap ErrDownloadFailed ''failed to get file info'' (Foreign ''file not found''))"
    for b
    by (simp add: processImageUpload_def no_files_fields)
  show ?thesis
    using confirm_consumes_pending [OF press confirm_trimmed pending, of no_files]
      press pending confirm_trimmed
    by (simp add: returned_def bot_after_def failed from_fields)
qed

lemma handlePhoto_stash:
  "IsAuthorized (config b) (Sender_ID c) \<Longrightarrow> Message_Photo c = Some f \<Longrightarrow>
   bot_after (handlePhoto W b c) = b\<lparr>pendingUploads := (pendingUploads b)(Sender_ID c \<mapsto> f)\<rparr>"
  by (simp add: handlePhoto_def bot_after_def)

text \<open>
  Claim C5. The pending uploads hold the last photo of a user. For an authorized user
  who sends a photo \<open>fa\<close>, then a photo \<open>fb\<close>, and then confirms: after the first photo
  the pending entry is \<open>fa\<close>, after the second it is \<open>fb\<close>; the confirmation uploads
  \<open>fb\<close>, looking up \<open>fb\<close> and, when the two differ, never \<open>fa\<close>; it leaves the user
  without a pending entry, and a further confirmation answers that nothing is pending
  and starts no download.
\<close>

theorem pending_last_write_wins:
  fixes W :: world and b :: Bot and c1 c2 c3 :: tcontext
  defines "b1 \<equiv> bot_after (handlePhoto W b c1)"
    and "b2 \<equiv> bot_after (handlePhoto W (bot_after (handlePhoto W b c1)) c2)"
    and "out \<equiv> handleCallback W (bot_after (handlePhoto W (bot_after (handlePhoto W b c1)) c2)) c3"
  assumes auth: "IsAuthorized (config b) u"
    and first: "Sender_ID c1 = u" "Message_Photo c1 = Some fa"
    and second: "Sender_ID c2 = u" "Message_Photo c2 = Some fb"
    and press: "Sender_ID c3 = u" "Callback_Data c3 = Some callback_Data"
      "TrimSpace callback_Data = ''confirm_upload''"
  shows "pendingUploads b1 u = Some fa
    \<and> pendingUploads b2 u = Some fb
    \<and> returned out = fst (processImageUpload W (bot_after out) c3 fb)
    \<and> performed out
        = [Ctx_Respond, Ctx_Edit TxtProcessing] @ snd (processImageUpload W (bot_after out) c3 fb)
    \<and> Bot_FileByID fb \<in> set (performed out)
    \<and> (fa \<noteq> fb \<longrightarrow> Bot_FileByID fa \<notin> set (performed out))
    \<and> pendingUploads (bot_after out) u = None
    \<and> handleCallback W (bot_after out) c3
        = (map_option Foreign (ctx_Edit W TxtNoPending), bot_after out,
           [Ctx_Respond, Ctx_Edit TxtNoPending])"
proof -
  have s1: "b1 = b\<lparr>pendingUploads := (pendingUploads b)(u \<mapsto> fa)\<rparr>"
    using auth first by (simp add: b1_def handlePhoto_stash)
  have f2: "b2 = bot_after (handlePhoto W b1 c2)"
    by (simp only: b2_def b1_def)
  have f3: "out = handleCallback W b2 c3"
    by (simp only: out_def b2_def)
  have "IsAuthorized (config b1) (Sender_ID c2)"
    using auth second by (simp add: s1)
  then have s2: "b2 = b1\<lparr>pendingUploads := (pendingUploads b1)(u \<mapsto> fb)\<rparr>"
    using second by (simp add: f2 handlePhoto_stash)
  have p1: "pendingUploads b1 u = Some fa" by (simp add: s1)
  have p2: "pendingUploads b2 u = Some fb" by (simp add: s2)
  let ?b3 = "b2\<lparr>pendingUploads := (pendingUploads b2)(u := None)\<rparr>"
  have o: "out = (fst (processImageUpload W ?b3 c3 fb), ?b3,
                  [Ctx_Respond, Ctx_Edit TxtProcessing] @ snd (processImageUpload W ?b3 c3 fb))"
    using press p2
    by (simp add: f3 handleCallback_def Let_def split: prod.splits)
  have after: "bot_after out = ?b3" by (simp add: o bot_after_def)
  have r: "returned out = fst (processImageUpload W (bot_after out) c3 fb)"
    unfolding after by (simp add: o returned_def)
  have t: "performed out
        = [Ctx_Respond, Ctx_Edit TxtProcessing] @ snd (processImageUpload W (bot_after out) c3 fb)"
    unfolding after by (simp add: o performed_def)
  have yes: "Bot_FileByID fb \<in> set (performed out)"
    unfolding t by (simp add: process_looks_up)
  have no: "fa \<noteq> fb \<longrightarrow> Bot_FileByID fa \<notin> set (performed out)"
    unfolding t by (simp add: process_looks_up)
  have gone: "pendingUploads (bot_after out) u = None"
    unfolding after by simp
  have again: "handleCallback W (bot_after out) c3
        = (map_option Foreign (ctx_Edit W TxtNoPending), bot_after out,
           [Ctx_Respond, Ctx_Edit TxtNoPending])"
    unfolding after using press by (simp add: handleCallback_def answer_def Let_def)
  show ?thesis
    by (intro conjI) (rule p1 p2 r t yes no gone again)+
qed


text \<open>User 7 sends \<open>p1\<close>, then \<open>p2\<close>, and confirms.\<close>

theorem pending_last_write_wins_witness:
  "IsAuthorized (config idle_bot) 7
   \<and> Sender_ID (photo_from 7 ''p1'') = 7 \<and> Message_Photo (photo_from 7 ''p1'') = Some ''p1''
   \<and> Sender_ID (photo_from 7 ''p2'') = 7 \<and> Message_Photo (photo_from 7 ''p2'') = Some ''p2''
   \<and> Sender_ID (press_from 7 ''confirm_upload'') = 7
   \<and> Callback_Data (press_from 7 ''confirm_upload'') = Some ''confirm_upload''
   \<and> TrimSpace ''confirm_upload'' = ''confirm_upload''
   \<and> Bot_FileByID ''p2''
       \<in> set (performed
                (handleCallback quiet_world
                   (bot_after (handlePhoto quiet_world
                      (bot_after (handlePhoto quiet_world idle_bot (photo_from 7 ''p1'')))
                      (photo_from 7 ''p2'')))
                   (press_from 7 ''confirm_upload'')))
   \<and> Bot_FileByID ''p1''
       \<notin> set (performed
                (handleCallback quiet_world
                   (bot_after (handlePhoto quiet_world
                      (bot_after (handlePhoto quiet_world idle_bot (photo_from 7 ''p1'')))
                      (photo_from 7 ''p2'')))
                   (press_from 7 ''confirm_upload'')))
   \<and> pendingUploads
        (bot_after
           (handleCallback quiet_world
              (bot_after (handlePhoto quiet_world
                 (bot_after (handlePhoto quiet_world idle_bot (photo_from 7 ''p1'')))
                 (photo_from 7 ''p2'')))
              (press_from 7 ''confirm_upload''))) 7 = None"
proof -
  let ?out = "handleCallback quiet_world
                (bot_after (handlePhoto quiet_world
                   (bot_after (handlePhoto quiet_world idle_bot (photo_from 7 ''p1'')))
                   (photo_from 7 ''p2'')))
                (press_from 7 ''confirm_upload'')"
  have a: "IsAuthorized (config idle_bot) 7"
    by (simp add: IsAuthorized_def roster17_fields idle_bot_fields)
  have d: "''p1'' \<noteq> ''p2''" by simp
  have c1: "Sender_ID (photo_from 7 ''p1'') = 7" "Message_Photo (photo_from 7 ''p1'') = Some ''p1''"
    and c2: "Sender_ID (photo_from 7 ''p2'') = 7" "Message_Photo (photo_from 7 ''p2'') = Some ''p2''"
    and c3: "Sender_ID (press_from 7 ''confirm_upload'') = 7"
      "Callback_Data (press_from 7 ''confirm_upload'') = Some ''confirm_upload''"
    by (simp_all add: from_fields)
  note t = pending_last_write_wins [OF a c1 c2 c3 confirm_trimmed, where W = quiet_world]
  from t have yes: "Bot_FileByID ''p2'' \<in> set (performed ?out)"
    by (elim conjE)
  from t have "''p1'' \<noteq> ''p2'' \<longrightarrow> Bot_FileByID ''p1'' \<notin> set (performed ?out)"
    by (elim conjE)
  then have no: "Bot_FileByID ''p1'' \<notin> set (performed ?out)"
    using d by (rule mp)
  from t have gone: "pendingUploads (bot_after ?out) 7 = None"
    by (elim conjE)
  show ?thesis
    by (intro conjI) (rule a c1 c2 c3 confirm_trimmed yes no gone)+
qed














end
